theory Spec2Isabelle
  imports Complex_Main
begin

section \<open>Numbers and configuration\<close>

text \<open>
  The game computes on JavaScript numbers. Entity geometry, displacements and clock
  readings are modelled as real numbers: finite values, no rounding. The one place where
  a value that is not a number is part of the behaviour under study (the player object
  handed to a dog's proximity test) is modelled separately, in the section on dogs.

  The constants below are the entries of \<^verbatim>\<open>CONFIG\<close> (gameConfig.js) that the
  modelled code reads.
\<close>

definition CANVAS_WIDTH :: real where
  "CANVAS_WIDTH = 1094"

definition CANVAS_HEIGHT :: real where
  "CANVAS_HEIGHT = 1112"

definition PLAYER_INITIAL_X :: real where
  "PLAYER_INITIAL_X = 465"

definition PLAYER_INITIAL_Y :: real where
  "PLAYER_INITIAL_Y = 210"

definition PLAYER_SPEED :: real where
  "PLAYER_SPEED = 2"

definition PLAYER_WIDTH :: real where
  "PLAYER_WIDTH = 16"

definition PLAYER_HEIGHT :: real where
  "PLAYER_HEIGHT = 32"

section \<open>ValidationUtils\<close>

text \<open>A rectangle literal \<^verbatim>\<open>{x, y, width, height}\<close>.\<close>

record rect =
  rx :: real
  ry :: real
  rwidth :: real
  rheight :: real

text \<open>\<^verbatim>\<open>clamp(value, min, max) = Math.min(Math.max(value, min), max)\<close>\<close>

definition clamp :: "real \<Rightarrow> real \<Rightarrow> real \<Rightarrow> real" where
  "clamp v lo hi = min (max v lo) hi"

text \<open>The overlap test: four strict comparisons, so rectangles that only touch do not collide.\<close>

definition isColliding :: "rect \<Rightarrow> rect \<Rightarrow> bool" where
  "isColliding rect1 rect2 \<longleftrightarrow>
     rx rect1 < rx rect2 + rwidth rect2 \<and>
     rx rect1 + rwidth rect1 > rx rect2 \<and>
     ry rect1 < ry rect2 + rheight rect2 \<and>
     ry rect1 + rheight rect1 > ry rect2"

text \<open>The obstacle set \<^verbatim>\<open>CONFIG.COLLISION_BOXES\<close>, in the order of the source.\<close>

definition COLLISION_BOXES :: "rect list" where
  "COLLISION_BOXES =
    [\<lparr>rx = 0, ry = 0, rwidth = 1094, rheight = 30\<rparr>,
     \<lparr>rx = 0, ry = 0, rwidth = 10, rheight = 1112\<rparr>,
     \<lparr>rx = 1030, ry = 0, rwidth = 30, rheight = 1112\<rparr>,
     \<lparr>rx = 0, ry = 860, rwidth = 600, rheight = 300\<rparr>,
     \<lparr>rx = 0, ry = 950, rwidth = 1200, rheight = 300\<rparr>,
     \<lparr>rx = 0, ry = 170, rwidth = 1200, rheight = 10\<rparr>,
     \<lparr>rx = 550, ry = 0, rwidth = 10, rheight = 300\<rparr>,
     \<lparr>rx = 700, ry = 0, rwidth = 10, rheight = 300\<rparr>,
     \<lparr>rx = 560, ry = 300, rwidth = 270, rheight = 10\<rparr>,
     \<lparr>rx = 200, ry = 0, rwidth = 10, rheight = 300\<rparr>,
     \<lparr>rx = 380, ry = 260, rwidth = 5, rheight = 50\<rparr>,
     \<lparr>rx = 930, ry = 450, rwidth = 130, rheight = 350\<rparr>,
     \<lparr>rx = 0, ry = 300, rwidth = 370, rheight = 10\<rparr>,
     \<lparr>rx = 0, ry = 260, rwidth = 370, rheight = 10\<rparr>]"

section \<open>GameObject\<close>

text \<open>
  The fields of the base class. The identifier is drawn at random by the constructor;
  here the constructor takes it as an argument.
\<close>

record gameobject =
  gx :: real
  gy :: real
  gwidth :: real
  gheight :: real
  gid :: string

definition GameObject :: "real \<Rightarrow> real \<Rightarrow> real \<Rightarrow> real \<Rightarrow> string \<Rightarrow> gameobject" where
  "GameObject x y w h i =
     \<lparr>gx = clamp x 0 (CANVAS_WIDTH - w), gy = clamp y 0 (CANVAS_HEIGHT - h),
      gwidth = w, gheight = h, gid = i\<rparr>"

definition getBounds :: "'a gameobject_scheme \<Rightarrow> rect" where
  "getBounds g = \<lparr>rx = gx g, ry = gy g, rwidth = gwidth g, rheight = gheight g\<rparr>"

definition getCenter :: "'a gameobject_scheme \<Rightarrow> real \<times> real" where
  "getCenter g = (gx g + gwidth g / 2, gy g + gheight g / 2)"

definition setPosition :: "'a gameobject_scheme \<Rightarrow> real \<Rightarrow> real \<Rightarrow> 'a gameobject_scheme" where
  "setPosition g x y =
     g\<lparr>gx := clamp x 0 (CANVAS_WIDTH - gwidth g), gy := clamp y 0 (CANVAS_HEIGHT - gheight g)\<rparr>"

definition moveBy :: "'a gameobject_scheme \<Rightarrow> real \<Rightarrow> real \<Rightarrow> 'a gameobject_scheme" where
  "moveBy g dx dy = setPosition g (gx g + dx) (gy g + dy)"

text \<open>A rectangle lies inside the world when none of its edges crosses the canvas.\<close>

definition inWorld :: "rect \<Rightarrow> bool" where
  "inWorld r \<longleftrightarrow>
     0 \<le> rx r \<and> 0 \<le> ry r \<and> rx r + rwidth r \<le> CANVAS_WIDTH \<and> ry r + rheight r \<le> CANVAS_HEIGHT"

section \<open>Player\<close>

text \<open>
  \<^verbatim>\<open>class Player extends GameObject\<close>. The sprite table plays no part in movement
  and is left out. \<^verbatim>\<open>lastPosition\<close> is the pair of its two fields.
\<close>

record player = gameobject +
  speed :: real
  direction :: string
  lastPosition :: "real \<times> real"

definition Player :: "string \<Rightarrow> player" where
  "Player i =
     (let g = GameObject PLAYER_INITIAL_X PLAYER_INITIAL_Y PLAYER_WIDTH PLAYER_HEIGHT i in
      \<lparr>gx = gx g, gy = gy g, gwidth = gwidth g, gheight = gheight g, gid = gid g,
       speed = PLAYER_SPEED, direction = ''down'', lastPosition = (gx g, gy g)\<rparr>)"

text \<open>
  \<^verbatim>\<open>canMoveTo\<close>: the world-boundary test first, then
  \<^verbatim>\<open>!collisionBoxes.some(box => isColliding(playerBounds, box))\<close>.
\<close>

definition canMoveTo :: "player \<Rightarrow> real \<Rightarrow> real \<Rightarrow> rect list \<Rightarrow> bool" where
  "canMoveTo p x y collisionBoxes =
     (let playerBounds = \<lparr>rx = x, ry = y, rwidth = gwidth p, rheight = gheight p\<rparr> in
      if x < 0 \<or> y < 0 \<or> x + gwidth p > CANVAS_WIDTH \<or> y + gheight p > CANVAS_HEIGHT
      then False
      else \<not> list_ex (isColliding playerBounds) collisionBoxes)"

text \<open>
  \<^verbatim>\<open>move\<close> stores the current position in \<^verbatim>\<open>lastPosition\<close>, then commits the whole
  displacement or nothing. It returns the updated player and the boolean of the source.
\<close>

definition move :: "player \<Rightarrow> real \<Rightarrow> real \<Rightarrow> rect list \<Rightarrow> player \<times> bool" where
  "move p dx dy collisionBoxes =
     (let p1 = p\<lparr>lastPosition := (gx p, gy p)\<rparr>;
          newX = gx p1 + dx;
          newY = gy p1 + dy
      in if canMoveTo p1 newX newY collisionBoxes
         then (p1\<lparr>gx := clamp newX 0 (CANVAS_WIDTH - gwidth p1),
                   gy := clamp newY 0 (CANVAS_HEIGHT - gheight p1)\<rparr>, True)
         else (p1, False))"

definition isMoving :: "player \<Rightarrow> bool" where
  "isMoving p \<longleftrightarrow> gx p \<noteq> fst (lastPosition p) \<or> gy p \<noteq> snd (lastPosition p)"

definition setDirection :: "player \<Rightarrow> string \<Rightarrow> player" where
  "setDirection p d =
     (if d \<in> set [''up'', ''down'', ''left'', ''right''] then p\<lparr>direction := d\<rparr> else p)"

section \<open>CollisionSystem\<close>

text \<open>
  The system holds its own list of boxes; every query takes an optional list that
  replaces it (\<^verbatim>\<open>collisionBoxes || this.collisionBoxes\<close>; an array, even an empty
  one, is truthy). The \<^verbatim>\<open>try\<close>/\<^verbatim>\<open>catch\<close> of \<^verbatim>\<open>checkCollision\<close> answers
  \<^verbatim>\<open>false\<close> when a box is not an object; a list of rectangles has no such element.
\<close>

record collisionSystem =
  collisionBoxes :: "rect list"

definition checkCollision :: "collisionSystem \<Rightarrow> rect \<Rightarrow> rect list option \<Rightarrow> bool" where
  "checkCollision cs bounds boxesArg =
     (let boxes = (case boxesArg of None \<Rightarrow> collisionBoxes cs | Some bs \<Rightarrow> bs) in
      list_ex (isColliding bounds) boxes)"

definition wouldCollide ::
    "collisionSystem \<Rightarrow> real \<Rightarrow> real \<Rightarrow> real \<Rightarrow> real \<Rightarrow> real \<Rightarrow> real \<Rightarrow> rect list option \<Rightarrow> bool" where
  "wouldCollide cs fromX fromY toX toY w h boxesArg =
     (let targetBounds = \<lparr>rx = toX, ry = toY, rwidth = w, rheight = h\<rparr> in
      checkCollision cs targetBounds boxesArg)"

text \<open>
  The response object. The first \<^verbatim>\<open>return\<close> of \<^verbatim>\<open>getMovementResponse\<close> has no
  \<^verbatim>\<open>canMoveX\<close> and \<^verbatim>\<open>canMoveY\<close> fields.
\<close>

record movementResponse =
  canMove :: bool
  adjustedX :: real
  adjustedY :: real
  canMoveX :: "bool option"
  canMoveY :: "bool option"

definition getMovementResponse ::
    "collisionSystem \<Rightarrow> 'a gameobject_scheme \<Rightarrow> real \<Rightarrow> real \<Rightarrow> rect list option \<Rightarrow> movementResponse" where
  "getMovementResponse cs entity deltaX deltaY boxesArg =
     (let currentBounds = getBounds entity;
          targetX = rx currentBounds + deltaX;
          targetY = ry currentBounds + deltaY;
          wouldCollideFull =
            wouldCollide cs (rx currentBounds) (ry currentBounds) targetX targetY
              (rwidth currentBounds) (rheight currentBounds) boxesArg
      in if \<not> wouldCollideFull
         then \<lparr>canMove = True, adjustedX = targetX, adjustedY = targetY,
               canMoveX = None, canMoveY = None\<rparr>
         else
           (let cmx = \<not> wouldCollide cs (rx currentBounds) (ry currentBounds)
                         targetX (ry currentBounds)
                         (rwidth currentBounds) (rheight currentBounds) boxesArg;
                cmy = \<not> wouldCollide cs (rx currentBounds) (ry currentBounds)
                         (rx currentBounds) targetY
                         (rwidth currentBounds) (rheight currentBounds) boxesArg
            in \<lparr>canMove = False,
                adjustedX = (if cmx then targetX else rx currentBounds),
                adjustedY = (if cmy then targetY else ry currentBounds),
                canMoveX = Some cmx, canMoveY = Some cmy\<rparr>))"

section \<open>The player as a dog sees it\<close>

text \<open>
  \<^verbatim>\<open>Dog.update(player, ...)\<close> reads its argument through \<^verbatim>\<open>getCenter()\<close>. To say what
  happens on an argument that is missing or whose coordinates are not numbers, the
  argument is modelled as an optional object whose fields are JavaScript numbers with
  \<^verbatim>\<open>NaN\<close>: arithmetic on \<^verbatim>\<open>NaN\<close> gives \<^verbatim>\<open>NaN\<close>, every comparison with it is false.
  Infinities are not modelled; the only division of the code path is by the literal 2.
\<close>

datatype jsnum = Num real | NaN

fun js_add :: "jsnum \<Rightarrow> jsnum \<Rightarrow> jsnum" where
  "js_add (Num a) (Num b) = Num (a + b)"
| "js_add _ _ = NaN"

fun js_sub :: "jsnum \<Rightarrow> jsnum \<Rightarrow> jsnum" where
  "js_sub (Num a) (Num b) = Num (a - b)"
| "js_sub _ _ = NaN"

fun js_mul :: "jsnum \<Rightarrow> jsnum \<Rightarrow> jsnum" where
  "js_mul (Num a) (Num b) = Num (a * b)"
| "js_mul _ _ = NaN"

fun js_half :: "jsnum \<Rightarrow> jsnum" where
  "js_half (Num a) = Num (a / 2)"
| "js_half NaN = NaN"

fun js_sqrt :: "jsnum \<Rightarrow> jsnum" where
  "js_sqrt (Num a) = (if a < 0 then NaN else Num (sqrt a))"
| "js_sqrt NaN = NaN"

fun js_lt :: "jsnum \<Rightarrow> jsnum \<Rightarrow> bool" where
  "js_lt (Num a) (Num b) = (a < b)"
| "js_lt _ _ = False"

record entity =
  ex :: jsnum
  ey :: jsnum
  ewidth :: jsnum
  eheight :: jsnum

text \<open>A game object of the model, seen as such an argument.\<close>

definition asEntity :: "'a gameobject_scheme \<Rightarrow> entity" where
  "asEntity g = \<lparr>ex = Num (gx g), ey = Num (gy g), ewidth = Num (gwidth g), eheight = Num (gheight g)\<rparr>"

definition entityCenter :: "entity \<Rightarrow> jsnum \<times> jsnum" where
  "entityCenter e = (js_add (ex e) (js_half (ewidth e)), js_add (ey e) (js_half (eheight e)))"

definition calculateDistance :: "jsnum \<Rightarrow> jsnum \<Rightarrow> jsnum \<Rightarrow> jsnum \<Rightarrow> jsnum" where
  "calculateDistance x1 y1 x2 y2 =
     (let dx = js_sub x1 x2; dy = js_sub y1 y2 in
      js_sqrt (js_add (js_mul dx dx) (js_mul dy dy)))"

text \<open>Calling \<^verbatim>\<open>getCenter\<close> on a missing argument throws.\<close>

datatype js_error = TypeError

definition distanceTo :: "'a gameobject_scheme \<Rightarrow> entity option \<Rightarrow> js_error + jsnum" where
  "distanceTo g other =
     (let center1 = getCenter g in
      case other of
        None \<Rightarrow> Inl TypeError
      | Some e \<Rightarrow>
          (let center2 = entityCenter e in
           Inr (calculateDistance (Num (fst center1)) (Num (snd center1))
                  (fst center2) (snd center2))))"

section \<open>Dog\<close>

definition INTERACTION_DISTANCE :: real where
  "INTERACTION_DISTANCE = 100"

definition ME_INTERACTION_DISTANCE :: real where
  "ME_INTERACTION_DISTANCE = 150"

text \<open>The geometry entries of a dog's configuration; sprite frames and offsets are left out.\<close>

record dogConfig =
  cx :: real
  cy :: real
  cscale :: real
  cwidth :: real
  cheight :: real

definition ROTI :: dogConfig where
  "ROTI = \<lparr>cx = 300, cy = 400, cscale = 12 / 100, cwidth = 450, cheight = 800\<rparr>"

definition KHUSHI :: dogConfig where
  "KHUSHI = \<lparr>cx = 150, cy = 250, cscale = 1 / 10, cwidth = 700, cheight = 740\<rparr>"

definition ME :: dogConfig where
  "ME = \<lparr>cx = 860, cy = 432, cscale = 19 / 100, cwidth = 550, cheight = 900\<rparr>"

text \<open>
  \<^verbatim>\<open>class Dog extends GameObject\<close>. \<^verbatim>\<open>audio\<close> records whether an audio element is
  attached (the field is \<^verbatim>\<open>null\<close> until \<^verbatim>\<open>setAudio\<close>). The state is the string of
  the source.
\<close>

record dog = gameobject +
  name :: string
  state :: string
  barked :: bool
  audio :: bool
  stateChangeTime :: real
  animationDuration :: real

definition Dog :: "string \<Rightarrow> dogConfig \<Rightarrow> string \<Rightarrow> dog" where
  "Dog nm config i =
     (let g = GameObject (cx config) (cy config)
                (cwidth config * cscale config) (cheight config * cscale config) i in
      \<lparr>gx = gx g, gy = gy g, gwidth = gwidth g, gheight = gheight g, gid = gid g,
       name = nm, state = ''sit'', barked = False, audio = False,
       stateChangeTime = 0, animationDuration = 500\<rparr>)"

definition setAudio :: "dog \<Rightarrow> bool \<Rightarrow> dog" where
  "setAudio d a = d\<lparr>audio := a\<rparr>"

text \<open>
  What the dog does to the audio elements, in the order of the calls. The two audio
  arguments of \<^verbatim>\<open>update\<close>, \<^verbatim>\<open>activate\<close> and \<^verbatim>\<open>deactivate\<close> say whether the element
  was passed (they default to \<^verbatim>\<open>null\<close>). The callbacks registered on the audio
  elements (\<^verbatim>\<open>then\<close>, \<^verbatim>\<open>catch\<close>, \<^verbatim>\<open>onended\<close>) run after the call and write no field
  of the dog.
\<close>

datatype effect =
    BgVolume real
  | SpecialRewind
  | SpecialPlay
  | SpecialOnEnded
  | SpecialPause
  | BarkPlay

text \<open>\<^verbatim>\<open>setState\<close> reads the clock (\<^verbatim>\<open>Date.now()\<close>); the reading is an argument.\<close>

definition setState :: "dog \<Rightarrow> string \<Rightarrow> real \<Rightarrow> dog" where
  "setState d newState now =
     (if state d \<noteq> newState then d\<lparr>state := newState, stateChangeTime := now\<rparr> else d)"

definition activate :: "dog \<Rightarrow> bool \<Rightarrow> bool \<Rightarrow> real \<Rightarrow> dog \<times> effect list" where
  "activate d specialAudio bgAudio now =
     (if name d = ''Me'' \<and> state d \<noteq> ''jump'' then
        ((setState d ''jump'' now)\<lparr>barked := True\<rparr>,
         (if bgAudio then [BgVolume 0] else []) @
         (if specialAudio then [SpecialRewind, SpecialPlay, SpecialOnEnded] else []))
      else if name d \<noteq> ''Me'' \<and> \<not> barked d then
        ((setState d ''jump'' now)\<lparr>barked := True\<rparr>,
         (if audio d then [BarkPlay] else []))
      else (d, []))"

definition deactivate :: "dog \<Rightarrow> bool \<Rightarrow> bool \<Rightarrow> real \<Rightarrow> dog \<times> effect list" where
  "deactivate d specialAudio bgAudio now =
     (if name d = ''Me'' \<and> state d \<noteq> ''sit'' then
        ((setState d ''sit'' now)\<lparr>barked := False\<rparr>,
         (if specialAudio then [SpecialPause, SpecialRewind] else []) @
         (if bgAudio then [BgVolume 1] else []))
      else if name d \<noteq> ''Me'' then
        ((setState d ''sit'' now)\<lparr>barked := False\<rparr>, [])
      else (d, []))"

definition threshold :: "dog \<Rightarrow> real" where
  "threshold d = (if name d = ''Me'' then ME_INTERACTION_DISTANCE else INTERACTION_DISTANCE)"

definition update ::
    "dog \<Rightarrow> entity option \<Rightarrow> bool \<Rightarrow> bool \<Rightarrow> real \<Rightarrow> js_error + dog \<times> effect list" where
  "update d player specialAudio bgAudio now =
     (case distanceTo d player of
        Inl e \<Rightarrow> Inl e
      | Inr distance \<Rightarrow>
          if js_lt distance (Num (threshold d))
          then Inr (activate d specialAudio bgAudio now)
          else Inr (deactivate d specialAudio bgAudio now))"

definition isPlayerInRange :: "dog \<Rightarrow> entity option \<Rightarrow> js_error + bool" where
  "isPlayerInRange d player =
     (case distanceTo d player of
        Inl e \<Rightarrow> Inl e
      | Inr distance \<Rightarrow> Inr (js_lt distance (Num (threshold d))))"

definition getAnimationProgress :: "dog \<Rightarrow> real \<Rightarrow> real" where
  "getAnimationProgress d now =
     (let elapsed = now - stateChangeTime d in min (elapsed / animationDuration d) 1)"

definition reset :: "dog \<Rightarrow> real \<Rightarrow> dog" where
  "reset d now = (setState d ''sit'' now)\<lparr>barked := False, stateChangeTime := 0\<rparr>"

subsection \<open>Sequences of calls on one dog\<close>

text \<open>
  One frame's call of \<^verbatim>\<open>update\<close>: the player argument, the two audio arguments and the
  clock reading. A call that throws leaves the dog as it was (the game loop catches the
  error and goes on with the next frame).
\<close>

type_synonym tick = "entity option \<times> bool \<times> bool \<times> real"

fun run_updates :: "dog \<Rightarrow> tick list \<Rightarrow> (js_error + dog \<times> effect list) list" where
  "run_updates d [] = []"
| "run_updates d ((pl, sa, bg, now) # ts) =
     (case update d pl sa bg now of
        Inl e \<Rightarrow> Inl e # run_updates d ts
      | Inr (d', fx) \<Rightarrow> Inr (d', fx) # run_updates d' ts)"

text \<open>The number of frames in which \<^verbatim>\<open>update\<close> switched the dog into \<^verbatim>\<open>'jump'\<close>.\<close>

fun enter_count :: "dog \<Rightarrow> tick list \<Rightarrow> nat" where
  "enter_count d [] = 0"
| "enter_count d ((pl, sa, bg, now) # ts) =
     (case update d pl sa bg now of
        Inl e \<Rightarrow> enter_count d ts
      | Inr (d', fx) \<Rightarrow>
          (if state d \<noteq> ''jump'' \<and> state d' = ''jump'' then 1 else 0) + enter_count d' ts)"

text \<open>The public operations that change a dog, as a caller may issue them in any order.\<close>

datatype dog_op =
    Update "entity option" bool bool real
  | Activate bool bool real
  | Deactivate bool bool real
  | SetState string real
  | Reset real

fun apply_op :: "dog \<Rightarrow> dog_op \<Rightarrow> dog" where
  "apply_op d (Update pl sa bg now) =
     (case update d pl sa bg now of Inl e \<Rightarrow> d | Inr (d', fx) \<Rightarrow> d')"
| "apply_op d (Activate sa bg now) = fst (activate d sa bg now)"
| "apply_op d (Deactivate sa bg now) = fst (deactivate d sa bg now)"
| "apply_op d (SetState s now) = setState d s now"
| "apply_op d (Reset now) = reset d now"

fun is_SetState :: "dog_op \<Rightarrow> bool" where
  "is_SetState (SetState s now) = True"
| "is_SetState _ = False"

definition run_ops :: "dog \<Rightarrow> dog_op list \<Rightarrow> dog" where
  "run_ops d ops = foldl apply_op d ops"

text \<open>The debounce latch agrees with the state.\<close>

definition latch_agrees :: "dog \<Rightarrow> bool" where
  "latch_agrees d \<longleftrightarrow> (barked d \<longleftrightarrow> state d = ''jump'')"

section \<open>Game: player update and bump sound\<close>

text \<open>
  The fields of \<^verbatim>\<open>Game\<close> that the player update reads and writes.
  \<^verbatim>\<open>musicStarted\<close> is the flag of the audio manager. The movement input comes from the
  input manager, which is outside the modelled code: it is an argument.
\<close>

record game =
  thePlayer :: player
  lastBumpTime :: real
  bumpCooldown :: real
  musicStarted :: bool

definition Game :: "string \<Rightarrow> game" where
  "Game i = \<lparr>thePlayer = Player i, lastBumpTime = 0, bumpCooldown = 150, musicStarted = False\<rparr>"

record movement =
  mdx :: real
  mdy :: real
  mdirection :: "string option"

text \<open>
  \<^verbatim>\<open>playBumpSound\<close> reads the clock; the boolean says whether the audio manager was
  asked to play the bump sound.
\<close>

definition playBumpSound :: "game \<Rightarrow> real \<Rightarrow> game \<times> bool" where
  "playBumpSound g currentTime =
     (if currentTime - lastBumpTime g < bumpCooldown g then (g, False)
      else (g\<lparr>lastBumpTime := currentTime\<rparr>, True))"

definition updatePlayer :: "game \<Rightarrow> movement \<Rightarrow> real \<Rightarrow> game \<times> bool" where
  "updatePlayer g m now =
     (if mdx m \<noteq> 0 \<or> mdy m \<noteq> 0 then
        (let sp = speed (thePlayer g);
             dx = mdx m * sp;
             dy = mdy m * sp;
             (p1, moved) = move (thePlayer g) dx dy COLLISION_BOXES;
             p2 = (case mdirection m of
                     None \<Rightarrow> p1
                   | Some dir \<Rightarrow> if dir \<noteq> [] then setDirection p1 dir else p1);
             g1 = g\<lparr>thePlayer := p2\<rparr>
         in if \<not> moved \<and> musicStarted g1 then playBumpSound g1 now else (g1, False))
      else (g, False))"

text \<open>Successive bump requests at the given clock readings: which of them played.\<close>

fun bump_requests :: "game \<Rightarrow> real list \<Rightarrow> bool list" where
  "bump_requests g [] = []"
| "bump_requests g (t # ts) =
     (case playBumpSound g t of (g', played) \<Rightarrow> played # bump_requests g' ts)"

text \<open>The game after successive bump requests.\<close>

fun after_requests :: "game \<Rightarrow> real list \<Rightarrow> game" where
  "after_requests g [] = g"
| "after_requests g (t # ts) = after_requests (fst (playBumpSound g t)) ts"

text \<open>
  The reference point of the cooldown, in the words of the specification: the clock
  reading of the last request that played among the requests made so far, or the stored
  initial timestamp when none has played yet.
\<close>

definition last_played :: "real \<Rightarrow> (real \<times> bool) list \<Rightarrow> real" where
  "last_played t0 reqs = (case filter snd reqs of [] \<Rightarrow> t0 | fs \<Rightarrow> fst (last fs))"

section \<open>Scenarios\<close>

text \<open>
  The player of the first end-to-end scenario: at \<open>(500, 40)\<close>, of the configured size
  \<open>16 \<times> 32\<close>.
\<close>

definition scenarioA_player :: player where
  "scenarioA_player = (Player ''player'')\<lparr>gx := 500, gy := 40\<rparr>"

text \<open>
  A diagonal move by \<open>(5, 5)\<close> against one obstacle to the right of the player: the
  obstacle is hit by the move along X alone and by the diagonal move, and is not hit by
  the move along Y alone.
\<close>

definition slide_player :: player where
  "slide_player = (Player ''player'')\<lparr>gx := 100, gy := 100\<rparr>"

definition slide_boxes :: "rect list" where
  "slide_boxes = [\<lparr>rx = 118, ry = 100, rwidth = 10, rheight = 100\<rparr>]"

text \<open>
  Two of the configured dogs: Roti with its bark attached, and the dog named
  \<^verbatim>\<open>'Me'\<close>; each also as it is after the player came near at clock reading 1000.
\<close>

definition roti :: dog where
  "roti = setAudio (Dog ''Roti'' ROTI ''roti'') True"

definition me_dog :: dog where
  "me_dog = Dog ''Me'' ME ''me''"

definition jumping_roti :: dog where
  "jumping_roti = roti\<lparr>state := ''jump'', stateChangeTime := 1000, barked := True\<rparr>"

definition jumping_me :: dog where
  "jumping_me = me_dog\<lparr>state := ''jump'', stateChangeTime := 1000, barked := True\<rparr>"

text \<open>
  A player whose center is 60 units to the right of Roti's center, and a player object
  whose coordinates are \<^verbatim>\<open>NaN\<close>.
\<close>

definition near_player :: entity where
  "near_player = asEntity ((Player ''player'')\<lparr>gx := 379, gy := 432\<rparr>)"

definition nan_player :: entity where
  "nan_player = \<lparr>ex = NaN, ey = NaN, ewidth = Num 16, eheight = Num 32\<rparr>"

section \<open>Properties\<close>

subsection \<open>Clamping and the player's constructor\<close>

lemma clamp_id: "lo \<le> v \<Longrightarrow> v \<le> hi \<Longrightarrow> clamp v lo hi = v"
  by (simp add: clamp_def)

lemma Player_fields:
  "Player i = \<lparr>gx = 465, gy = 210, gwidth = 16, gheight = 32, gid = i,
               speed = 2, direction = ''down'', lastPosition = (465, 210)\<rparr>"
  by (simp add: Player_def GameObject_def clamp_def CANVAS_WIDTH_def CANVAS_HEIGHT_def
      PLAYER_INITIAL_X_def PLAYER_INITIAL_Y_def PLAYER_SPEED_def PLAYER_WIDTH_def
      PLAYER_HEIGHT_def)

text \<open>
  C7. For an entity whose width and height are positive and do not exceed the world's,
  \<^verbatim>\<open>setPosition(x, y)\<close> leaves the entity's rectangle inside the world for every
  \<open>x\<close> and \<open>y\<close>, and changes neither the width, nor the height, nor the identifier.
\<close>

theorem setPosition_inside_world:
  assumes "0 < gwidth g" and "gwidth g \<le> CANVAS_WIDTH"
      and "0 < gheight g" and "gheight g \<le> CANVAS_HEIGHT"
  shows "inWorld (getBounds (setPosition g x y)) \<and>
         gwidth (setPosition g x y) = gwidth g \<and>
         gheight (setPosition g x y) = gheight g \<and>
         gid (setPosition g x y) = gid g"
  using assms
  by (auto simp: inWorld_def getBounds_def setPosition_def clamp_def min_def max_def)

theorem setPosition_inside_world_witness:
  "inWorld (getBounds (setPosition (Player ''p'') (-7) 2000)) \<and>
   gx (setPosition (Player ''p'') (-7) 2000) = 0 \<and>
   gy (setPosition (Player ''p'') (-7) 2000) = 1080 \<and>
   gwidth (setPosition (Player ''p'') (-7) 2000) = 16 \<and>
   gheight (setPosition (Player ''p'') (-7) 2000) = 32 \<and>
   gid (setPosition (Player ''p'') (-7) 2000) = ''p''"
  using setPosition_inside_world [of "Player ''p''" "-7" 2000]
  by (simp add: Player_fields setPosition_def clamp_def CANVAS_WIDTH_def CANVAS_HEIGHT_def)

subsection \<open>Player movement\<close>

lemma canMoveTo_inWorld:
  "canMoveTo p x y boxes \<Longrightarrow>
   inWorld \<lparr>rx = x, ry = y, rwidth = gwidth p, rheight = gheight p\<rparr>"
  by (auto simp: canMoveTo_def inWorld_def Let_def split: if_splits)

lemma canMoveTo_free:
  "canMoveTo p x y boxes \<Longrightarrow>
   \<not> list_ex (isColliding \<lparr>rx = x, ry = y, rwidth = gwidth p, rheight = gheight p\<rparr>) boxes"
  by (auto simp: canMoveTo_def Let_def split: if_splits)

text \<open>
  C1. If the player's bounds overlap no obstacle of the list and lie inside the world,
  then after \<^verbatim>\<open>move(dx, dy, obstacles)\<close>, whatever it returns, the bounds still overlap
  no obstacle of the list and still lie inside the world.
\<close>

theorem move_no_tunneling:
  assumes free: "\<forall>b \<in> set obstacles. \<not> isColliding (getBounds p) b"
      and inside: "inWorld (getBounds p)"
      and mv: "move p dx dy obstacles = (p', moved)"
  shows "(\<forall>b \<in> set obstacles. \<not> isColliding (getBounds p') b) \<and> inWorld (getBounds p')"
proof (cases "canMoveTo (p\<lparr>lastPosition := (gx p, gy p)\<rparr>) (gx p + dx) (gy p + dy) obstacles")
  case True
  from canMoveTo_inWorld [OF True] canMoveTo_free [OF True]
  show ?thesis using True mv
    by (auto simp: move_def Let_def getBounds_def inWorld_def clamp_id list_ex_iff)
next
  case False
  then show ?thesis using assms by (auto simp: move_def Let_def getBounds_def)
qed

lemma move_initial_right:
  "move (Player ''p'') 2 0 COLLISION_BOXES = ((Player ''p'')\<lparr>gx := 467\<rparr>, True)"
  by (simp add: Player_fields move_def canMoveTo_def COLLISION_BOXES_def isColliding_def
      clamp_def CANVAS_WIDTH_def CANVAS_HEIGHT_def Let_def)

theorem move_no_tunneling_witness:
  "\<not> list_ex (isColliding (getBounds (Player ''p''))) COLLISION_BOXES \<and>
   inWorld (getBounds (Player ''p'')) \<and>
   move (Player ''p'') 2 0 COLLISION_BOXES = ((Player ''p'')\<lparr>gx := 467\<rparr>, True) \<and>
   \<not> list_ex (isColliding (getBounds ((Player ''p'')\<lparr>gx := 467\<rparr>))) COLLISION_BOXES \<and>
   inWorld (getBounds ((Player ''p'')\<lparr>gx := 467\<rparr>))"
proof -
  have free: "\<forall>b \<in> set COLLISION_BOXES. \<not> isColliding (getBounds (Player ''p'')) b"
    by (simp add: Player_fields getBounds_def COLLISION_BOXES_def isColliding_def)
  have inside: "inWorld (getBounds (Player ''p''))"
    by (simp add: Player_fields getBounds_def inWorld_def CANVAS_WIDTH_def CANVAS_HEIGHT_def)
  from move_no_tunneling [OF free inside move_initial_right] free inside move_initial_right
  show ?thesis by (simp add: list_ex_iff)
qed

text \<open>
  C10. When \<^verbatim>\<open>move\<close> returns \<^verbatim>\<open>false\<close>, the player is the player before the call
  with only \<^verbatim>\<open>lastPosition\<close> set to the position before the call: \<open>x\<close> and \<open>y\<close> are
  unchanged, and \<^verbatim>\<open>isMoving()\<close> is false afterwards.
\<close>

theorem move_blocked_atomic:
  assumes "move p dx dy boxes = (p', False)"
  shows "p' = p\<lparr>lastPosition := (gx p, gy p)\<rparr> \<and> gx p' = gx p \<and> gy p' = gy p \<and>
         \<not> isMoving p'"
  using assms by (auto simp: move_def Let_def isMoving_def split: if_splits)

lemma scenarioA_blocked_from_30:
  "move (scenarioA_player\<lparr>gy := 30\<rparr>) 0 (-10) COLLISION_BOXES =
     (scenarioA_player\<lparr>gy := 30, lastPosition := (500, 30)\<rparr>, False)"
  by (simp add: scenarioA_player_def Player_fields move_def canMoveTo_def COLLISION_BOXES_def
      isColliding_def clamp_def CANVAS_WIDTH_def CANVAS_HEIGHT_def Let_def)

theorem move_blocked_atomic_witness:
  "move (scenarioA_player\<lparr>gy := 30\<rparr>) 0 (-10) COLLISION_BOXES =
     (scenarioA_player\<lparr>gy := 30, lastPosition := (500, 30)\<rparr>, False) \<and>
   gx (scenarioA_player\<lparr>gy := 30, lastPosition := (500, 30)\<rparr>) = 500 \<and>
   gy (scenarioA_player\<lparr>gy := 30, lastPosition := (500, 30)\<rparr>) = 30 \<and>
   \<not> isMoving (scenarioA_player\<lparr>gy := 30, lastPosition := (500, 30)\<rparr>)"
  using move_blocked_atomic [OF scenarioA_blocked_from_30] scenarioA_blocked_from_30
  by (simp add: scenarioA_player_def Player_fields)

text \<open>
  C3, as stated, fails: in the first end-to-end scenario the move by \<open>(0, -10)\<close> is not
  blocked. The target bounds start at \<open>y = 30\<close>, where the top wall ends; the overlap
  test is strict, so the move is committed and \<open>y\<close> becomes 30, not 40.
\<close>

theorem scenarioA_not_blocked:
  "\<lparr>rx = 0, ry = 0, rwidth = 1094, rheight = 30\<rparr> \<in> set COLLISION_BOXES \<and>
   getBounds scenarioA_player = \<lparr>rx = 500, ry = 40, rwidth = 16, rheight = 32\<rparr> \<and>
   snd (move scenarioA_player 0 (-10) COLLISION_BOXES) = True \<and>
   gy (fst (move scenarioA_player 0 (-10) COLLISION_BOXES)) = 30 \<and>
   gy (fst (move scenarioA_player 0 (-10) COLLISION_BOXES)) \<noteq> 40"
  by (simp add: scenarioA_player_def Player_fields move_def canMoveTo_def COLLISION_BOXES_def
      isColliding_def clamp_def CANVAS_WIDTH_def CANVAS_HEIGHT_def Let_def getBounds_def)

text \<open>
  C3, amended. In the configured world, whose obstacle list holds the top wall, the
  player at \<open>(500, 40)\<close> of size \<open>16 \<times> 32\<close> that attempts \<open>(0, -10)\<close> ends at
  \<open>y = 30\<close>, touching the wall; every attempt \<open>(0, dy)\<close> with \<open>dy < -10\<close> from there is
  blocked: \<^verbatim>\<open>move\<close> returns \<^verbatim>\<open>false\<close> and \<open>y\<close> stays 40.
\<close>

theorem scenarioA_touching:
  "\<lparr>rx = 0, ry = 0, rwidth = 1094, rheight = 30\<rparr> \<in> set COLLISION_BOXES \<and>
   getBounds scenarioA_player = \<lparr>rx = 500, ry = 40, rwidth = 16, rheight = 32\<rparr> \<and>
   move scenarioA_player 0 (-10) COLLISION_BOXES
     = (scenarioA_player\<lparr>gy := 30, lastPosition := (500, 40)\<rparr>, True) \<and>
   (\<forall>dy. dy < -10 \<longrightarrow>
      move scenarioA_player 0 dy COLLISION_BOXES
        = (scenarioA_player\<lparr>lastPosition := (500, 40)\<rparr>, False))"
  by (simp add: scenarioA_player_def Player_fields move_def canMoveTo_def COLLISION_BOXES_def
      isColliding_def clamp_def CANVAS_WIDTH_def CANVAS_HEIGHT_def Let_def getBounds_def)

theorem scenarioA_touching_witness:
  "move scenarioA_player 0 (-10) COLLISION_BOXES
     = (scenarioA_player\<lparr>gy := 30, lastPosition := (500, 40)\<rparr>, True) \<and>
   move scenarioA_player 0 (-11) COLLISION_BOXES
     = (scenarioA_player\<lparr>lastPosition := (500, 40)\<rparr>, False)"
  using scenarioA_touching by simp

subsection \<open>Axis separation\<close>

text \<open>
  C2, as stated, fails: the player's movement of a frame is \<^verbatim>\<open>Player.move\<close>, which
  commits the whole displacement or nothing. With the X path blocked and the Y path
  free, the player does not slide: it stays where it is.
\<close>

theorem slide_counterexample:
  "wouldCollide \<lparr>collisionBoxes = []\<rparr> 100 100 105 100 16 32 (Some slide_boxes) \<and>
   \<not> wouldCollide \<lparr>collisionBoxes = []\<rparr> 100 100 100 105 16 32 (Some slide_boxes) \<and>
   getBounds slide_player = \<lparr>rx = 100, ry = 100, rwidth = 16, rheight = 32\<rparr> \<and>
   snd (move slide_player 5 5 slide_boxes) = False \<and>
   gx (fst (move slide_player 5 5 slide_boxes)) - gx slide_player = 0 \<and>
   gy (fst (move slide_player 5 5 slide_boxes)) - gy slide_player = 0 \<and>
   gy (fst (move slide_player 5 5 slide_boxes)) - gy slide_player \<noteq> 5"
  by (simp add: slide_player_def slide_boxes_def Player_fields move_def canMoveTo_def
      isColliding_def clamp_def CANVAS_WIDTH_def CANVAS_HEIGHT_def Let_def getBounds_def
      wouldCollide_def checkCollision_def)

text \<open>
  C2, amended. When the full target collides, the move along X alone collides and the
  move along Y alone does not, \<^verbatim>\<open>CollisionSystem.getMovementResponse\<close> answers with the
  slide along Y (\<^verbatim>\<open>canMove\<close> false, the current \<open>x\<close>, \<open>y + dy\<close>, \<^verbatim>\<open>canMoveX\<close> false,
  \<^verbatim>\<open>canMoveY\<close> true), while \<^verbatim>\<open>Player.move\<close> on the same boxes returns \<^verbatim>\<open>false\<close> and
  leaves the position unchanged.
\<close>

theorem slide_response:
  assumes full: "wouldCollide cs (gx p) (gy p) (gx p + dx) (gy p + dy)
                   (gwidth p) (gheight p) (Some boxes)"
      and xonly: "wouldCollide cs (gx p) (gy p) (gx p + dx) (gy p)
                   (gwidth p) (gheight p) (Some boxes)"
      and yonly: "\<not> wouldCollide cs (gx p) (gy p) (gx p) (gy p + dy)
                   (gwidth p) (gheight p) (Some boxes)"
  shows "getMovementResponse cs p dx dy (Some boxes) =
           \<lparr>canMove = False, adjustedX = gx p, adjustedY = gy p + dy,
            canMoveX = Some False, canMoveY = Some True\<rparr> \<and>
         move p dx dy boxes = (p\<lparr>lastPosition := (gx p, gy p)\<rparr>, False)"
  using assms
  by (simp add: getMovementResponse_def getBounds_def Let_def move_def canMoveTo_def
      wouldCollide_def checkCollision_def)

theorem slide_response_witness:
  "getMovementResponse \<lparr>collisionBoxes = []\<rparr> slide_player 5 5 (Some slide_boxes) =
     \<lparr>canMove = False, adjustedX = 100, adjustedY = 105,
      canMoveX = Some False, canMoveY = Some True\<rparr> \<and>
   move slide_player 5 5 slide_boxes = (slide_player\<lparr>lastPosition := (100, 100)\<rparr>, False)"
proof -
  have g: "gx slide_player = 100" "gy slide_player = 100" "gwidth slide_player = 16"
    "gheight slide_player = 32"
    by (simp_all add: slide_player_def Player_fields)
  have full: "wouldCollide \<lparr>collisionBoxes = []\<rparr> (gx slide_player) (gy slide_player)
      (gx slide_player + 5) (gy slide_player + 5) (gwidth slide_player) (gheight slide_player)
      (Some slide_boxes)"
    by (simp add: g slide_boxes_def wouldCollide_def checkCollision_def isColliding_def)
  have xonly: "wouldCollide \<lparr>collisionBoxes = []\<rparr> (gx slide_player) (gy slide_player)
      (gx slide_player + 5) (gy slide_player) (gwidth slide_player) (gheight slide_player)
      (Some slide_boxes)"
    by (simp add: g slide_boxes_def wouldCollide_def checkCollision_def isColliding_def)
  have yonly: "\<not> wouldCollide \<lparr>collisionBoxes = []\<rparr> (gx slide_player) (gy slide_player)
      (gx slide_player) (gy slide_player + 5) (gwidth slide_player) (gheight slide_player)
      (Some slide_boxes)"
    by (simp add: g slide_boxes_def wouldCollide_def checkCollision_def isColliding_def)
  from slide_response [OF full xonly yonly] show ?thesis by (simp add: g)
qed

subsection \<open>The dog's proximity state machine\<close>

lemma Dog_Roti_fields:
  "Dog ''Roti'' ROTI i = \<lparr>gx = 300, gy = 400, gwidth = 54, gheight = 96, gid = i,
       name = ''Roti'', state = ''sit'', barked = False, audio = False,
       stateChangeTime = 0, animationDuration = 500\<rparr>"
  by (simp add: Dog_def ROTI_def GameObject_def clamp_def CANVAS_WIDTH_def CANVAS_HEIGHT_def)

lemma Dog_Me_fields:
  "Dog ''Me'' ME i = \<lparr>gx = 860, gy = 432, gwidth = 209 / 2, gheight = 171, gid = i,
       name = ''Me'', state = ''sit'', barked = False, audio = False,
       stateChangeTime = 0, animationDuration = 500\<rparr>"
  by (simp add: Dog_def ME_def GameObject_def clamp_def CANVAS_WIDTH_def CANVAS_HEIGHT_def)

lemma roti_fields:
  "roti = \<lparr>gx = 300, gy = 400, gwidth = 54, gheight = 96, gid = ''roti'',
       name = ''Roti'', state = ''sit'', barked = False, audio = True,
       stateChangeTime = 0, animationDuration = 500\<rparr>"
  by (simp add: roti_def setAudio_def Dog_Roti_fields)

lemma activate_triggered:
  "state d = ''jump'' \<Longrightarrow> barked d \<Longrightarrow> activate d sa bg now = (d, [])"
  by (simp add: activate_def)

lemma activate_idle:
  "state d = ''sit'' \<Longrightarrow> \<not> barked d \<Longrightarrow>
   activate d sa bg now =
     (d\<lparr>state := ''jump'', stateChangeTime := now, barked := True\<rparr>,
      if name d = ''Me''
      then (if bg then [BgVolume 0] else []) @
           (if sa then [SpecialRewind, SpecialPlay, SpecialOnEnded] else [])
      else if audio d then [BarkPlay] else [])"
  by (simp add: activate_def setState_def)

lemma isPlayerInRange_update:
  "isPlayerInRange d pl = Inr True \<Longrightarrow> update d pl sa bg now = Inr (activate d sa bg now)"
  by (auto simp: isPlayerInRange_def update_def split: sum.splits)

lemma threshold_fields:
  "threshold (d\<lparr>state := s, stateChangeTime := t, barked := b\<rparr>) = threshold d"
  by (simp add: threshold_def)

lemma distanceTo_fields:
  "distanceTo (d\<lparr>state := s, stateChangeTime := t, barked := b\<rparr>) pl = distanceTo d pl"
  by (simp add: distanceTo_def getCenter_def)

lemma isPlayerInRange_fields:
  "isPlayerInRange (d\<lparr>state := s, stateChangeTime := t, barked := b\<rparr>) pl
     = isPlayerInRange d pl"
  unfolding isPlayerInRange_def threshold_fields distanceTo_fields by (rule refl)

lemma triggered_stays:
  assumes "state d = ''jump''" and "barked d"
      and "\<forall>t \<in> set ts. isPlayerInRange d (fst t) = Inr True"
  shows "run_updates d ts = map (\<lambda>t. Inr (d, [])) ts \<and> enter_count d ts = 0"
  using assms
proof (induction ts)
  case Nil
  then show ?case by simp
next
  case (Cons t ts)
  obtain pl sa bg now where t: "t = (pl, sa, bg, now)" by (cases t) auto
  from Cons.prems t have "update d pl sa bg now = Inr (d, [])"
    by (simp add: isPlayerInRange_update activate_triggered)
  with Cons t show ?case by simp
qed

text \<open>
  C4. A dog in state \<^verbatim>\<open>'sit'\<close> with \<^verbatim>\<open>barked\<close> false is updated in successive frames,
  the player in range in each of them. The first update switches the dog to \<^verbatim>\<open>'jump'\<close>
  at that frame's clock reading, sets the latch and triggers the audio of the dog (the
  bark when one is attached; for \<^verbatim>\<open>'Me'\<close> the muting of the background music and the
  special audio, as far as they were passed). Every later update returns that same dog
  and triggers nothing, so the dog was switched into \<^verbatim>\<open>'jump'\<close> in exactly one frame.
\<close>

theorem dog_enter_once:
  assumes idle: "state d = ''sit''" and latch: "\<not> barked d"
      and near: "\<forall>t \<in> set ((pl, sa, bg, now) # ts). isPlayerInRange d (fst t) = Inr True"
  shows "run_updates d ((pl, sa, bg, now) # ts) =
           Inr (d\<lparr>state := ''jump'', stateChangeTime := now, barked := True\<rparr>,
                if name d = ''Me''
                then (if bg then [BgVolume 0] else []) @
                     (if sa then [SpecialRewind, SpecialPlay, SpecialOnEnded] else [])
                else if audio d then [BarkPlay] else [])
           # map (\<lambda>t. Inr (d\<lparr>state := ''jump'', stateChangeTime := now, barked := True\<rparr>, []))
               ts \<and>
         enter_count d ((pl, sa, bg, now) # ts) = 1"
proof -
  let ?d1 = "d\<lparr>state := ''jump'', stateChangeTime := now, barked := True\<rparr>"
  have u: "update d pl sa bg now = Inr (activate d sa bg now)"
    using near by (simp add: isPlayerInRange_update)
  have "\<forall>t \<in> set ts. isPlayerInRange ?d1 (fst t) = Inr True"
    using near by (simp add: isPlayerInRange_fields)
  then have rest: "run_updates ?d1 ts = map (\<lambda>t. Inr (?d1, [])) ts \<and> enter_count ?d1 ts = 0"
    by (intro triggered_stays) simp_all
  show ?thesis using u rest idle activate_idle [OF idle latch, of sa bg now] by simp
qed

lemma sqrt_3600: "sqrt 3600 < 100"
  by (rule real_less_lsqrt) simp_all

lemma roti_near: "isPlayerInRange roti (Some near_player) = Inr True"
  by (simp add: isPlayerInRange_def distanceTo_def getCenter_def entityCenter_def
      calculateDistance_def near_player_def asEntity_def Player_fields roti_fields
      threshold_def INTERACTION_DISTANCE_def sqrt_3600)

theorem dog_enter_once_witness:
  "state roti = ''sit'' \<and> barked roti = False \<and>
   isPlayerInRange roti (Some near_player) = Inr True \<and>
   run_updates roti [(Some near_player, False, False, 1000),
                     (Some near_player, False, False, 1016),
                     (Some near_player, False, False, 1033)]
     = [Inr (jumping_roti, [BarkPlay]), Inr (jumping_roti, []), Inr (jumping_roti, [])] \<and>
   enter_count roti [(Some near_player, False, False, 1000),
                     (Some near_player, False, False, 1016),
                     (Some near_player, False, False, 1033)] = 1"
proof -
  have idle: "state roti = ''sit''" and latch: "\<not> barked roti"
    by (simp_all add: roti_fields)
  have near: "\<forall>t \<in> set ((Some near_player, False, False, 1000) #
      [(Some near_player, False, False, 1016), (Some near_player, False, False, 1033)]).
      isPlayerInRange roti (fst t) = Inr True"
    by (simp add: roti_near)
  have who: "name roti = ''Roti''" "audio roti"
    by (simp_all add: roti_fields)
  from dog_enter_once [OF idle latch near] idle latch roti_near who
  show ?thesis by (simp add: jumping_roti_def)
qed

subsection \<open>Latch and state\<close>

lemma latch_activate: "latch_agrees d \<Longrightarrow> latch_agrees (fst (activate d sa bg now))"
  by (auto simp: latch_agrees_def activate_def setState_def)

lemma latch_deactivate: "latch_agrees d \<Longrightarrow> latch_agrees (fst (deactivate d sa bg now))"
  by (auto simp: latch_agrees_def deactivate_def setState_def)

lemma latch_reset: "latch_agrees (reset d now)"
  by (auto simp: latch_agrees_def reset_def setState_def)

lemma latch_apply_op:
  "latch_agrees d \<Longrightarrow> \<not> is_SetState op \<Longrightarrow> latch_agrees (apply_op d op)"
proof (cases op)
  case (Update pl sa bg now)
  assume "latch_agrees d"
  then show ?thesis
    using Update latch_activate [of d sa bg now] latch_deactivate [of d sa bg now]
    by (auto simp: update_def split: sum.splits prod.splits if_splits)
qed (simp_all add: latch_activate latch_deactivate latch_reset)

lemma latch_foldl:
  "latch_agrees d \<Longrightarrow> \<forall>op \<in> set ops. \<not> is_SetState op \<Longrightarrow>
   latch_agrees (foldl apply_op d ops)"
  by (induction ops arbitrary: d) (simp_all add: latch_apply_op)

text \<open>
  C5, as stated, fails: \<^verbatim>\<open>setState\<close> is one of the listed operations, and called on
  its own it changes the state without touching the latch. On a new dog,
  \<^verbatim>\<open>setState('jump')\<close> gives state \<^verbatim>\<open>'jump'\<close> with \<^verbatim>\<open>barked\<close> false.
\<close>

theorem latch_counterexample:
  "state (Dog ''Roti'' ROTI ''roti'') = ''sit'' \<and>
   barked (Dog ''Roti'' ROTI ''roti'') = False \<and>
   state (run_ops (Dog ''Roti'' ROTI ''roti'') [SetState ''jump'' 1000]) = ''jump'' \<and>
   barked (run_ops (Dog ''Roti'' ROTI ''roti'') [SetState ''jump'' 1000]) = False \<and>
   \<not> latch_agrees (run_ops (Dog ''Roti'' ROTI ''roti'') [SetState ''jump'' 1000])"
  by (simp add: Dog_Roti_fields run_ops_def setState_def latch_agrees_def)

text \<open>
  C5, amended. From a new dog, every sequence of the operations \<^verbatim>\<open>update\<close>,
  \<^verbatim>\<open>activate\<close>, \<^verbatim>\<open>deactivate\<close> and \<^verbatim>\<open>reset\<close> ends in a dog whose latch \<^verbatim>\<open>barked\<close>
  is true exactly when its state is \<^verbatim>\<open>'jump'\<close>.
\<close>

theorem latch_invariant:
  assumes "\<forall>op \<in> set ops. \<not> is_SetState op"
  shows "latch_agrees (run_ops (Dog nm config i) ops)"
proof -
  have "latch_agrees (Dog nm config i)"
    by (simp add: latch_agrees_def Dog_def Let_def)
  then show ?thesis using assms by (simp add: run_ops_def latch_foldl)
qed

theorem latch_invariant_witness:
  "latch_agrees (run_ops (Dog ''Roti'' ROTI ''roti'')
     [Update (Some near_player) False False 1000, Update None False False 1016,
      Update (Some nan_player) False False 1033, Activate False False 1050,
      Reset 1066, Deactivate False False 1083])"
proof -
  have "\<forall>op \<in> set [Update (Some near_player) False False 1000, Update None False False 1016,
      Update (Some nan_player) False False 1033, Activate False False 1050,
      Reset 1066, Deactivate False False 1083]. \<not> is_SetState op"
    by simp
  from latch_invariant [OF this] show ?thesis .
qed

subsection \<open>A player argument that is missing or not a number\<close>

lemma nan_coordinate_distance:
  "ex e = NaN \<or> ey e = NaN \<or> ewidth e = NaN \<or> eheight e = NaN \<Longrightarrow>
   distanceTo d (Some e) = Inr NaN"
  by (cases "ex e"; cases "ey e"; cases "ewidth e"; cases "eheight e")
     (auto simp: distanceTo_def entityCenter_def calculateDistance_def Let_def)

lemma update_nan_distance:
  "distanceTo d (Some e) = Inr NaN \<Longrightarrow>
   update d (Some e) sa bg now = Inr (deactivate d sa bg now)"
  by (simp add: update_def)

lemma update_absent: "update d None sa bg now = Inl TypeError"
  by (simp add: update_def distanceTo_def)

lemma deactivate_state: "state (fst (deactivate d sa bg now)) = ''sit''"
  by (auto simp: deactivate_def setState_def)

lemma deactivate_idle:
  "state d = ''sit'' \<Longrightarrow> \<not> barked d \<Longrightarrow> deactivate d sa bg now = (d, [])"
  by (auto simp: deactivate_def setState_def)

text \<open>
  C8, as stated, fails: with \<^verbatim>\<open>NaN\<close> coordinates the distance is \<^verbatim>\<open>NaN\<close>, the test
  \<^verbatim>\<open>distance < threshold\<close> is false, and \<^verbatim>\<open>update\<close> deactivates. Roti, switched to
  \<^verbatim>\<open>'jump'\<close> by a player in range, goes back to \<^verbatim>\<open>'sit'\<close> on such a frame; the dog
  \<^verbatim>\<open>'Me'\<close> does too, pausing the special audio and restoring the background music.
\<close>

theorem nan_player_counterexample:
  "update roti (Some near_player) False False 1000 = Inr (jumping_roti, [BarkPlay]) \<and>
   state jumping_roti = ''jump'' \<and>
   update jumping_roti (Some nan_player) False False 2000
     = Inr (jumping_roti\<lparr>state := ''sit'', stateChangeTime := 2000, barked := False\<rparr>, []) \<and>
   state jumping_me = ''jump'' \<and>
   update jumping_me (Some nan_player) True True 2000
     = Inr (jumping_me\<lparr>state := ''sit'', stateChangeTime := 2000, barked := False\<rparr>,
            [SpecialPause, SpecialRewind, BgVolume 1])"
proof -
  have a: "update roti (Some near_player) False False 1000 = Inr (jumping_roti, [BarkPlay])"
    using roti_near
    by (simp add: isPlayerInRange_update activate_def setState_def roti_fields jumping_roti_def)
  have n1: "distanceTo jumping_roti (Some nan_player) = Inr NaN"
    by (rule nan_coordinate_distance) (simp add: nan_player_def)
  have n2: "distanceTo jumping_me (Some nan_player) = Inr NaN"
    by (rule nan_coordinate_distance) (simp add: nan_player_def)
  have b: "update jumping_roti (Some nan_player) False False 2000
     = Inr (jumping_roti\<lparr>state := ''sit'', stateChangeTime := 2000, barked := False\<rparr>, [])"
    unfolding update_nan_distance [OF n1]
    by (simp add: deactivate_def setState_def jumping_roti_def roti_fields)
  have c: "update jumping_me (Some nan_player) True True 2000
     = Inr (jumping_me\<lparr>state := ''sit'', stateChangeTime := 2000, barked := False\<rparr>,
            [SpecialPause, SpecialRewind, BgVolume 1])"
    unfolding update_nan_distance [OF n2]
    by (simp add: deactivate_def setState_def jumping_me_def me_dog_def Dog_Me_fields)
  show ?thesis using a b c by (simp add: jumping_roti_def jumping_me_def)
qed

text \<open>
  C8, amended. When the player argument is missing, \<^verbatim>\<open>update\<close> throws before it
  touches the dog. When the computed distance is \<^verbatim>\<open>NaN\<close>, \<^verbatim>\<open>update\<close> does what
  \<^verbatim>\<open>deactivate\<close> does: the dog ends the frame in state \<^verbatim>\<open>'sit'\<close>, and a dog that was
  in \<^verbatim>\<open>'sit'\<close> with \<^verbatim>\<open>barked\<close> false is unchanged and triggers nothing.
\<close>

theorem update_invalid_player:
  assumes nan: "distanceTo d (Some e) = Inr NaN"
  shows "update d None sa bg now = Inl TypeError \<and>
         update d (Some e) sa bg now = Inr (deactivate d sa bg now) \<and>
         state (fst (deactivate d sa bg now)) = ''sit'' \<and>
         (state d = ''sit'' \<and> \<not> barked d \<longrightarrow> deactivate d sa bg now = (d, []))"
  using nan by (simp add: update_nan_distance update_absent deactivate_state deactivate_idle)

theorem update_invalid_player_witness:
  "distanceTo roti (Some nan_player) = Inr NaN \<and>
   update roti None False False 2000 = Inl TypeError \<and>
   update roti (Some nan_player) False False 2000 = Inr (roti, [])"
proof -
  have nan: "distanceTo roti (Some nan_player) = Inr NaN"
    by (rule nan_coordinate_distance) (simp add: nan_player_def)
  have "state roti = ''sit''" and "\<not> barked roti"
    by (simp_all add: roti_fields)
  with update_invalid_player [OF nan, of False False 2000] nan show ?thesis by simp
qed

subsection \<open>Animation progress\<close>

text \<open>
  C9. \<^verbatim>\<open>getAnimationProgress\<close> has no lower bound: when the clock reads less than the
  stored time of the last state change, the result is negative, where the clamp to
  \<open>[0, 1]\<close> gives 0. Roti's state changed at clock reading 1000; at reading 500 the
  progress is \<open>-1\<close>.
\<close>

theorem animation_progress_negative:
  "stateChangeTime (setState roti ''jump'' 1000) = 1000 \<and>
   animationDuration (setState roti ''jump'' 1000) = 500 \<and>
   getAnimationProgress (setState roti ''jump'' 1000) 500 = -1 \<and>
   clamp ((500 - 1000) / 500) 0 1 = 0"
  by (simp add: roti_fields setState_def getAnimationProgress_def clamp_def)

subsection \<open>Bump sound cooldown\<close>

lemma last_played_Cons:
  "last_played t0 ((t, played) # reqs) = last_played (if played then t else t0) reqs"
  by (simp add: last_played_def split: list.splits)

lemma lastBumpTime_after:
  "lastBumpTime (after_requests g ts)
     = last_played (lastBumpTime g) (zip ts (bump_requests g ts))"
proof (induction ts arbitrary: g)
  case Nil
  then show ?case by (simp add: last_played_def)
next
  case (Cons t ts)
  show ?case
    by (simp add: Cons.IH last_played_Cons playBumpSound_def split: prod.splits)
qed

lemma bumpCooldown_after: "bumpCooldown (after_requests g ts) = bumpCooldown g"
  by (induction ts arbitrary: g) (simp_all add: playBumpSound_def)

lemma length_bump_requests: "length (bump_requests g ts) = length ts"
  by (induction ts arbitrary: g) (simp_all split: prod.splits)

lemma bump_requests_append:
  "bump_requests g (pre @ ts) = bump_requests g pre @ bump_requests (after_requests g pre) ts"
  by (induction pre arbitrary: g) (simp_all split: prod.splits)

lemma bump_requests_nth:
  "bump_requests g (pre @ t # post) ! length pre
     = snd (playBumpSound (after_requests g pre) t)"
  by (simp add: bump_requests_append nth_append length_bump_requests split: prod.splits)

text \<open>A blocked move, once the music has started, is a bump request.\<close>

lemma updatePlayer_blocked:
  assumes "mdx m \<noteq> 0 \<or> mdy m \<noteq> 0" and "musicStarted g"
      and "snd (move (thePlayer g) (mdx m * speed (thePlayer g)) (mdy m * speed (thePlayer g))
             COLLISION_BOXES) = False"
  shows "snd (updatePlayer g m now) = snd (playBumpSound g now) \<and>
         lastBumpTime (fst (updatePlayer g m now)) = lastBumpTime (fst (playBumpSound g now))"
  using assms
  by (auto simp: updatePlayer_def Let_def playBumpSound_def split: prod.splits option.splits)

text \<open>
  C6. With the cooldown of 150 ms, a bump request plays the sound exactly when at least
  150 ms lie between its clock reading and that of the last request that played (the
  stored initial timestamp when none has played yet). In particular, of three requests
  of which the first plays, the second comes less than 150 ms after the first and the
  third at least 150 ms after the first, the first and the third play and the second
  does not.
\<close>

theorem bump_debounce:
  assumes cd: "bumpCooldown g = 150"
  shows "(bump_requests g (pre @ t # post) ! length pre \<longleftrightarrow>
            150 \<le> t - last_played (lastBumpTime g) (zip pre (bump_requests g pre))) \<and>
         (150 \<le> t1 - lastBumpTime g \<and> t2 - t1 < 150 \<and> 150 \<le> t3 - t1 \<longrightarrow>
            bump_requests g [t1, t2, t3] = [True, False, True])"
proof
  have "bumpCooldown (after_requests g pre) = 150"
    using cd by (simp add: bumpCooldown_after)
  then show "bump_requests g (pre @ t # post) ! length pre \<longleftrightarrow>
            150 \<le> t - last_played (lastBumpTime g) (zip pre (bump_requests g pre))"
    by (auto simp: bump_requests_nth playBumpSound_def lastBumpTime_after [symmetric])
next
  show "150 \<le> t1 - lastBumpTime g \<and> t2 - t1 < 150 \<and> 150 \<le> t3 - t1 \<longrightarrow>
            bump_requests g [t1, t2, t3] = [True, False, True]"
    using cd by (simp add: playBumpSound_def)
qed

theorem bump_debounce_witness:
  "bumpCooldown (Game ''p'') = 150 \<and>
   bump_requests (Game ''p'') [1000, 1100, 1150] = [True, False, True] \<and>
   last_played (lastBumpTime (Game ''p''))
     (zip [1000, 1100] (bump_requests (Game ''p'') [1000, 1100])) = 1000"
proof -
  have cd: "bumpCooldown (Game ''p'') = 150"
    by (simp add: Game_def)
  from bump_debounce [OF cd, of "[1000, 1100]" 1150 "[]" 1000 1100 1150] cd
  show ?thesis by (simp add: Game_def playBumpSound_def last_played_def)
qed

end
